theory Spec2Isabelle
  imports Complex_Main "HOL-Library.Product_Lexorder"
begin

section \<open>Planar flight simulation of a guided projectile (main_simulation.py)\<close>

text \<open>
  The program computes with IEEE double-precision numbers. The flight computation is read
  over the real numbers, every numpy function as the mathematical function it
  approximates: rounding, signed zeros and overflow are outside the model. The
  aerodynamic table is the one place where the model keeps floats that are no real
  number: a cell can be nan and a lookup can yield nan or an infinity, and both are the
  value \<open>None\<close> there.
\<close>

subsection \<open>numpy arrays of three floats and the numpy functions the program calls\<close>

text \<open>\<^verbatim>\<open>np.array([a, b, c])\<close>, read and written by the indices 0, 1 and 2.\<close>

record vec3 =
  c0 :: real
  c1 :: real
  c2 :: real

text \<open>\<^verbatim>\<open>target_pos - self.pos\<close>: componentwise subtraction.\<close>

definition sub3 :: "vec3 \<Rightarrow> vec3 \<Rightarrow> vec3" where
  "sub3 a b = \<lparr>c0 = c0 a - c0 b, c1 = c1 a - c1 b, c2 = c2 a - c2 b\<rparr>"

text \<open>\<^verbatim>\<open>np.linalg.norm\<close> of a three-component array: the Euclidean length.\<close>

definition norm3 :: "vec3 \<Rightarrow> real" where
  "norm3 v = sqrt ((c0 v)\<^sup>2 + (c1 v)\<^sup>2 + (c2 v)\<^sup>2)"

text \<open>
  \<^verbatim>\<open>np.arctan2(y, x)\<close>: the angle of the point \<open>(x, y)\<close> in \<open>(-\<pi>, \<pi>]\<close>, and 0 at the
  origin.
\<close>

definition arctan2 :: "real \<Rightarrow> real \<Rightarrow> real" where
  "arctan2 y x =
     (if 0 < x then arctan (y / x)
      else if x < 0 then (if 0 \<le> y then arctan (y / x) + pi else arctan (y / x) - pi)
      else if 0 < y then pi / 2
      else if y < 0 then - (pi / 2)
      else 0)"

text \<open>\<^verbatim>\<open>np.radians\<close>: degrees to radians.\<close>

definition radians :: "real \<Rightarrow> real" where
  "radians d = d * pi / 180"

text \<open>\<^verbatim>\<open>np.clip(a, a_min, a_max)\<close>, which is \<^verbatim>\<open>minimum(a_max, maximum(a, a_min))\<close>.\<close>

definition clip :: "real \<Rightarrow> real \<Rightarrow> real \<Rightarrow> real" where
  "clip a a_min a_max = min a_max (max a a_min)"

subsection \<open>Configuration\<close>

text \<open>
  The attributes of class \<^verbatim>\<open>Config\<close>. The source reads them from the class itself; here
  they are the fields of a record handed to every function that reads one, and the
  source's values are the constant \<open>Config\<close>. The fields carry the class name as a
  prefix (\<^verbatim>\<open>Config.dt\<close> is \<open>Config_dt\<close>). \<^verbatim>\<open>Config.area\<close> is computed from the diameter.
\<close>

record config =
  Config_dt :: real
  Config_max_time :: real
  Config_g :: real
  Config_mass :: real
  Config_diameter :: real
  Config_target_pos :: vec3

definition Config_area :: "config \<Rightarrow> real" where
  "Config_area cfg = pi * (Config_diameter cfg / 2)\<^sup>2"

definition Config :: config where
  "Config = \<lparr>Config_dt = 1 / 100, Config_max_time = 100, Config_g = 981 / 100,
             Config_mass = 435 / 10, Config_diameter = 155 / 1000,
             Config_target_pos = \<lparr>c0 = 15000, c1 = 500, c2 = 0\<rparr>\<rparr>"

subsection \<open>Aerodynamic database\<close>

text \<open>
  What the \<^verbatim>\<open>try\<close> block of \<^verbatim>\<open>AeroDatabase.__init__\<close> can raise; every exception is
  caught by the one \<^verbatim>\<open>except Exception\<close> clause.
\<close>

datatype load_error = LoadError

text \<open>
  A Python float in the table or out of a lookup: a real number, or no real number
  (\<open>None\<close>: nan, and the infinities that a division by zero in the interpolation
  gives).
\<close>

type_synonym float = "real option"

text \<open>
  A row of the table: Mach(0), Alpha(1), Cd(2), Cl\_Slope(3). What \<^verbatim>\<open>np.genfromtxt\<close>
  delivers is an input of the model: \<open>Inl\<close> when it raises (a missing file, an I/O
  error, rows of unequal length), \<open>Inr\<close> the rows otherwise. A field that is not a number
  does not make it raise: it delivers nan for that cell.
\<close>

type_synonym row = "float \<times> float \<times> float \<times> float"

definition col0 :: "row list \<Rightarrow> float list" where
  "col0 data = map (\<lambda>(m, a, cd, cl). m) data"

definition col2 :: "row list \<Rightarrow> float list" where
  "col2 data = map (\<lambda>(m, a, cd, cl). cd) data"

definition col3 :: "row list \<Rightarrow> float list" where
  "col3 data = map (\<lambda>(m, a, cd, cl). cl) data"

text \<open>
  A lookup curve is either one of the two fallback lambdas, which ignore their argument,
  or an interpolant over at least two samples \<open>(x, y)\<close> in ascending order of \<open>x\<close>.
\<close>

datatype curve =
  Constant real
  | Interp "float \<times> float" "float \<times> float" "(float \<times> float) list"

text \<open>
  Modelled from the spec: the order in which the samples are sorted by their \<open>x\<close>.
  Numbers come in ascending order and nan comes after every number, as numpy sorts.
\<close>

definition mach_key :: "float \<Rightarrow> bool \<times> real" where
  "mach_key x = (case x of Some r \<Rightarrow> (False, r) | None \<Rightarrow> (True, 0))"

text \<open>
  Modelled from the spec: \<^verbatim>\<open>scipy.interpolate.interp1d\<close> with \<^verbatim>\<open>kind='linear'\<close> and
  \<^verbatim>\<open>fill_value="extrapolate"\<close> is library code that is not part of the sources. The
  spec describes it as a piecewise-linear interpolant over the Mach column that extends
  the boundary segment linearly beyond the sampled range, and says rows need not arrive
  sorted. The samples are sorted by \<open>x\<close> (stably); a table with fewer than two rows has
  no segment and yields no interpolant (\<^verbatim>\<open>np.genfromtxt\<close> gives a one-dimensional array
  for such a file, and the column slice \<^verbatim>\<open>data[:, 0]\<close> raises). Nothing checks that
  the cells are numbers or that the Mach values differ.
\<close>

definition interp1d :: "float list \<Rightarrow> float list \<Rightarrow> load_error + curve" where
  "interp1d x y =
     (case sort_key (\<lambda>p. mach_key (fst p)) (zip x y) of
        p0 # p1 # ps \<Rightarrow> Inr (Interp p0 p1 ps)
      | _ \<Rightarrow> Inl LoadError)"

text \<open>
  Modelled from the spec: the value of the line through the samples \<open>lo\<close> and \<open>hi\<close> at
  \<open>x_new\<close>, computed as slope times distance plus \<open>y\<close> of \<open>lo\<close>. It is a real number
  when the four coordinates are numbers and the two \<open>x\<close> differ. A nan coordinate makes
  the value nan, and two equal \<open>x\<close> make the slope a division by zero, whose float
  result is an infinity or nan and leaves no real value.
\<close>

fun segment :: "float \<times> float \<Rightarrow> float \<times> float \<Rightarrow> real \<Rightarrow> float" where
  "segment (Some x_lo, Some y_lo) (Some x_hi, Some y_hi) x_new =
     (if x_hi = x_lo then None
      else Some ((y_hi - y_lo) / (x_hi - x_lo) * (x_new - x_lo) + y_lo))"
| "segment lo hi x_new = None"

text \<open>
  Modelled from the spec: whether \<open>x_new\<close> lies at or below the sample coordinate \<open>x\<close>
  in the sorted order, where nan lies above every number.
\<close>

definition not_above :: "real \<Rightarrow> float \<Rightarrow> bool" where
  "not_above x_new x = (case x of Some b \<Rightarrow> x_new \<le> b | None \<Rightarrow> True)"

text \<open>
  Modelled from the spec: evaluation of the interpolant. The segment is the first one
  whose right end is not below \<open>x_new\<close>, and the last one when there is none; so the first
  and the last segment also serve every \<open>x_new\<close> outside the sampled range.
\<close>

fun interp_call :: "float \<times> float \<Rightarrow> float \<times> float \<Rightarrow> (float \<times> float) list \<Rightarrow> real \<Rightarrow> float" where
  "interp_call lo hi [] x_new = segment lo hi x_new"
| "interp_call lo hi (p # ps) x_new =
     (if not_above x_new (fst hi) then segment lo hi x_new else interp_call hi p ps x_new)"

text \<open>The call \<^verbatim>\<open>self.cd_curve(mach)\<close> or \<^verbatim>\<open>self.cl_curve(mach)\<close>.\<close>

fun call_curve :: "curve \<Rightarrow> real \<Rightarrow> float" where
  "call_curve (Constant c) m = Some c"
| "call_curve (Interp lo hi ps) m = interp_call lo hi ps m"

record AeroDatabase =
  cd_curve :: curve
  cl_curve :: curve

text \<open>The body of the \<^verbatim>\<open>try\<close> block: any exception leaves it as \<open>Inl\<close>.\<close>

definition try_load :: "load_error + row list \<Rightarrow> load_error + AeroDatabase" where
  "try_load genfromtxt =
     (case genfromtxt of
        Inl e \<Rightarrow> Inl e
      | Inr data \<Rightarrow>
          (case interp1d (col0 data) (col2 data) of
             Inl e \<Rightarrow> Inl e
           | Inr cd \<Rightarrow>
               (case interp1d (col0 data) (col3 data) of
                  Inl e \<Rightarrow> Inl e
                | Inr cl \<Rightarrow> Inr \<lparr>cd_curve = cd, cl_curve = cl\<rparr>)))"

text \<open>\<^verbatim>\<open>AeroDatabase.__init__\<close>: the \<^verbatim>\<open>except\<close> clause installs the two fallback lambdas.\<close>

definition AeroDatabase_init :: "load_error + row list \<Rightarrow> AeroDatabase" where
  "AeroDatabase_init genfromtxt =
     (case try_load genfromtxt of
        Inr db \<Rightarrow> db
      | Inl e \<Rightarrow> \<lparr>cd_curve = Constant (67 / 100), cl_curve = Constant 2\<rparr>)"

text \<open>
  \<^verbatim>\<open>get_cd\<close> and \<^verbatim>\<open>get_cl_alpha\<close> hand the looked-up float to the flight computation,
  which is modelled over the reals: they are the real number that the lookup yields. Where
  the lookup yields nan or an infinity there is no such number and they say nothing; what
  a lookup yields is stated on \<open>call_curve\<close>, which tells the cases apart.
\<close>

definition get_cd :: "AeroDatabase \<Rightarrow> real \<Rightarrow> real" where
  "get_cd self mach = the (call_curve (cd_curve self) mach)"

definition get_cl_alpha :: "AeroDatabase \<Rightarrow> real \<Rightarrow> real" where
  "get_cl_alpha self mach = the (call_curve (cl_curve self) mach)"

subsection \<open>The projectile and its update step\<close>

record Projectile =
  pos :: vec3
  vel :: vec3
  quat :: "real \<times> real \<times> real \<times> real"
  aero :: AeroDatabase

text \<open>
  \<^verbatim>\<open>Projectile.__init__\<close>; the quaternion of the zero rotation is \<open>[0, 0, 0, 1]\<close>. The
  argument is what loading \<^verbatim>\<open>aerodynamics.csv\<close> delivers.
\<close>

definition Projectile_init :: "load_error + row list \<Rightarrow> Projectile" where
  "Projectile_init genfromtxt =
     \<lparr>pos = \<lparr>c0 = 0, c1 = 2000, c2 = 0\<rparr>,
      vel = \<lparr>c0 = 680, c1 = 0, c2 = 0\<rparr>,
      quat = (0, 0, 0, 1),
      aero = AeroDatabase_init genfromtxt\<rparr>"

text \<open>
  The sections of \<^verbatim>\<open>update\<close>, in the order of the source. Section B: the commanded angle
  of attack (lines 76 to 88).
\<close>

definition los_angle :: "vec3 \<Rightarrow> Projectile \<Rightarrow> real" where
  "los_angle target_pos self =
     (let r_tm = sub3 target_pos (pos self) in arctan2 (c1 r_tm) (c0 r_tm))"

definition vel_angle :: "Projectile \<Rightarrow> real" where
  "vel_angle self = arctan2 (c1 (vel self)) (c0 (vel self))"

definition alpha_cmd :: "vec3 \<Rightarrow> Projectile \<Rightarrow> real" where
  "alpha_cmd target_pos self =
     (let N = 3;
          alpha_cmd = N * (los_angle target_pos self - vel_angle self)
      in clip alpha_cmd (- radians 10) (radians 10))"

text \<open>Section C: drag and lift in the wind frame (lines 92 to 103).\<close>

definition body_forces :: "config \<Rightarrow> Projectile \<Rightarrow> real \<Rightarrow> real \<Rightarrow> real \<Rightarrow> real \<Rightarrow> real \<times> real" where
  "body_forces cfg self rho speed mach alpha =
     (let Cd = get_cd (aero self) mach;
          Cl_slope = get_cl_alpha (aero self) mach;
          Cl = Cl_slope * alpha;
          q = 0.5 * rho * speed\<^sup>2 * Config_area cfg;
          F_drag = q * Cd;
          F_lift = q * Cl
      in (F_drag, F_lift))"

text \<open>Section D: the flight-path angle, derived again, and the forces on the inertial axes.\<close>

definition gamma :: "Projectile \<Rightarrow> real" where
  "gamma self = arctan2 (c1 (vel self)) (c0 (vel self))"

definition inertial_forces :: "Projectile \<Rightarrow> real \<times> real \<Rightarrow> real \<times> real" where
  "inertial_forces self F =
     (case F of (F_drag, F_lift) \<Rightarrow>
        (let fx_aero = - F_drag * cos (gamma self) - F_lift * sin (gamma self);
             fy_aero = - F_drag * sin (gamma self) + F_lift * cos (gamma self)
         in (fx_aero, fy_aero)))"

text \<open>
  Section E: the four assignments of lines 123 to 126, one after the other, each reading
  the object as the ones before it left it.
\<close>

definition integrate :: "config \<Rightarrow> real \<Rightarrow> Projectile \<Rightarrow> real \<times> real \<Rightarrow> Projectile" where
  "integrate cfg dt self0 f =
     (case f of (fx_aero, fy_aero) \<Rightarrow>
        (let ax = fx_aero / Config_mass cfg;
             ay = fy_aero / Config_mass cfg - Config_g cfg;
             self1 = self0\<lparr>vel := (vel self0)\<lparr>c0 := c0 (vel self0) + ax * dt\<rparr>\<rparr>;
             self2 = self1\<lparr>vel := (vel self1)\<lparr>c1 := c1 (vel self1) + ay * dt\<rparr>\<rparr>;
             self3 = self2\<lparr>pos := (pos self2)\<lparr>c0 := c0 (pos self2) + c0 (vel self2) * dt\<rparr>\<rparr>;
             self4 = self3\<lparr>pos := (pos self3)\<lparr>c1 := c1 (pos self3) + c1 (vel self3) * dt\<rparr>\<rparr>
         in self4))"

text \<open>
  \<^verbatim>\<open>Projectile.update\<close>: the returned flag and the object as the call leaves it. Section A
  computes altitude, density, speed and Mach number before the altitude test.
\<close>

definition update :: "config \<Rightarrow> real \<Rightarrow> vec3 \<Rightarrow> Projectile \<Rightarrow> bool \<times> Projectile" where
  "update cfg dt target_pos self =
     (let h = c1 (pos self);
          rho = 1.225 * exp (- h / 8500);
          speed = norm3 (vel self);
          mach = speed / 340
      in if h < 0 then (False, self)
         else
           (let alpha = alpha_cmd target_pos self;
                F = body_forces cfg self rho speed mach alpha;
                f = inertial_forces self F
            in (True, integrate cfg dt self f)))"

subsection \<open>The simulation loop\<close>

text \<open>The dictionary \<^verbatim>\<open>history\<close> with its three lists.\<close>

record history =
  hist_x :: "real list"
  hist_y :: "real list"
  hist_mach :: "real list"

text \<open>Lines 146 to 149: one value appended to each list.\<close>

definition record_data :: "history \<Rightarrow> Projectile \<Rightarrow> history" where
  "record_data hist missile =
     \<lparr>hist_x = hist_x hist @ [c0 (pos missile)],
      hist_y = hist_y hist @ [c1 (pos missile)],
      hist_mach = hist_mach hist @ [norm3 (vel missile) / 340]\<rparr>"

text \<open>
  The \<^verbatim>\<open>while\<close> loop of \<^verbatim>\<open>run_simulation\<close>. It need not end (a time step of 0 never
  advances \<open>t\<close>), so not returning is the value \<open>None\<close>. Beside the history the model keeps
  a log of the calls of \<^verbatim>\<open>update\<close>: the time \<open>t\<close> of the call, the flag it returned and
  the object as it left it. The log is not a variable of the source; it is there to state
  properties of the sequence of calls.
\<close>

type_synonym call = "real \<times> bool \<times> Projectile"

partial_function (option) run_loop ::
  "config \<Rightarrow> real \<Rightarrow> Projectile \<Rightarrow> history \<Rightarrow> call list \<Rightarrow> (history \<times> call list) option" where
  "run_loop config t missile hist calls =
     (if t < Config_max_time config then
        (case update config (Config_dt config) (Config_target_pos config) missile of
           (flying, missile') \<Rightarrow>
             if \<not> flying then Some (hist, calls @ [(t, flying, missile')])
             else run_loop config (t + Config_dt config) missile'
                    (record_data hist missile') (calls @ [(t, flying, missile')]))
      else Some (hist, calls))"

text \<open>\<^verbatim>\<open>run_simulation\<close> for a configuration and what loading the table delivers.\<close>

definition simulate :: "config \<Rightarrow> load_error + row list \<Rightarrow> (history \<times> call list) option" where
  "simulate config genfromtxt =
     run_loop config 0 (Projectile_init genfromtxt)
       \<lparr>hist_x = [], hist_y = [], hist_mach = []\<rparr> []"

definition run_simulation :: "load_error + row list \<Rightarrow> history option" where
  "run_simulation genfromtxt = map_option fst (simulate Config genfromtxt)"

text \<open>
  The sequence of calls that the loop makes from time \<open>t\<close> and object \<open>m\<close>, as a predicate
  on a log: the log is empty only when \<open>t\<close> has reached the maximum time; otherwise its
  first entry is the call of update on \<open>m\<close> at time \<open>t\<close>, made before the maximum time, and
  the rest is the sequence from \<open>t + dt\<close> and the updated object when that call returned
  true, and empty when it returned false.
\<close>

fun valid_calls :: "config \<Rightarrow> real \<Rightarrow> Projectile \<Rightarrow> call list \<Rightarrow> bool" where
  "valid_calls cfg t m [] = (\<not> t < Config_max_time cfg)"
| "valid_calls cfg t m (c # cs) =
     (t < Config_max_time cfg \<and>
      c = (t, update cfg (Config_dt cfg) (Config_target_pos cfg) m) \<and>
      (if fst (snd c) then valid_calls cfg (t + Config_dt cfg) (snd (snd c)) cs else cs = []))"

text \<open>The history after recording, in order, the object left by every call that returned true.\<close>

definition samples :: "history \<Rightarrow> call list \<Rightarrow> history" where
  "samples hist calls =
     fold (\<lambda>c h. record_data h (snd (snd c))) (filter (\<lambda>c. fst (snd c)) calls) hist"

text \<open>
  Two configurations that agree on what the simulation reads of them: time step, maximum
  time, gravity, mass, reference area, and the first two components of the target.
\<close>

definition same_config :: "config \<Rightarrow> config \<Rightarrow> bool" where
  "same_config cfg cfg' =
     (Config_dt cfg' = Config_dt cfg \<and> Config_max_time cfg' = Config_max_time cfg \<and>
      Config_g cfg' = Config_g cfg \<and> Config_mass cfg' = Config_mass cfg \<and>
      Config_area cfg' = Config_area cfg \<and>
      c0 (Config_target_pos cfg') = c0 (Config_target_pos cfg) \<and>
      c1 (Config_target_pos cfg') = c1 (Config_target_pos cfg))"

text \<open>
  Two objects that agree on what a flight reads of them: the first two components of the
  position, the velocity, and the two coefficient lookups as functions of the Mach number.
\<close>

definition same_flight :: "Projectile \<Rightarrow> Projectile \<Rightarrow> bool" where
  "same_flight m m' =
     (c0 (pos m') = c0 (pos m) \<and> c1 (pos m') = c1 (pos m) \<and> vel m' = vel m \<and>
      (\<forall>mach. get_cd (aero m') mach = get_cd (aero m) mach) \<and>
      (\<forall>mach. get_cl_alpha (aero m') mach = get_cl_alpha (aero m) mach))"

section \<open>Properties\<close>

subsection \<open>Effect of one update on the object\<close>

lemma integrate_quat: "quat (integrate cfg dt self f) = quat self"
  by (cases f) (simp add: integrate_def Let_def)

lemma integrate_pos_c2: "c2 (pos (integrate cfg dt self f)) = c2 (pos self)"
  by (cases f) (simp add: integrate_def Let_def)

lemma integrate_vel_c2: "c2 (vel (integrate cfg dt self f)) = c2 (vel self)"
  by (cases f) (simp add: integrate_def Let_def)

text \<open>
  C10: whatever update returns, the third component of the position, the third component
  of the velocity and the orientation quaternion are as they were before the call.
\<close>

theorem update_frame:
  "c2 (pos (snd (update cfg dt target_pos self))) = c2 (pos self) \<and>
   c2 (vel (snd (update cfg dt target_pos self))) = c2 (vel self) \<and>
   quat (snd (update cfg dt target_pos self)) = quat self"
  by (simp add: update_def Let_def integrate_quat integrate_pos_c2 integrate_vel_c2)

lemma integrate_vel_c0:
  "c0 (vel (integrate cfg dt self (fx, fy))) = c0 (vel self) + fx / Config_mass cfg * dt"
  by (simp add: integrate_def Let_def)

lemma integrate_vel_c1:
  "c1 (vel (integrate cfg dt self (fx, fy))) =
     c1 (vel self) + (fy / Config_mass cfg - Config_g cfg) * dt"
  by (simp add: integrate_def Let_def)

lemma integrate_pos_c0:
  "c0 (pos (integrate cfg dt self f)) =
     c0 (pos self) + c0 (vel (integrate cfg dt self f)) * dt"
  by (cases f) (simp add: integrate_def Let_def)

lemma integrate_pos_c1:
  "c1 (pos (integrate cfg dt self f)) =
     c1 (pos self) + c1 (vel (integrate cfg dt self f)) * dt"
  by (cases f) (simp add: integrate_def Let_def)

lemma update_flying:
  "\<not> c1 (pos self) < 0 \<Longrightarrow>
   update cfg dt target_pos self =
     (True, integrate cfg dt self
        (inertial_forces self
           (body_forces cfg self (1.225 * exp (- c1 (pos self) / 8500)) (norm3 (vel self))
              (norm3 (vel self) / 340) (alpha_cmd target_pos self))))"
  by (simp add: update_def Let_def)

lemma norm3_init: "norm3 (vel (Projectile_init src)) = 680"
  by (simp add: Projectile_init_def norm3_def)

lemma gamma_init: "gamma (Projectile_init src) = 0"
  by (simp add: Projectile_init_def gamma_def arctan2_def)

lemma Config_area_pos: "0 < Config_area Config"
  by (simp add: Config_area_def Config_def)

lemma init_drag_pos:
  "0 < fst (body_forces Config (Projectile_init (Inl LoadError)) (1.225 * exp r) 680 2 a)"
  using Config_area_pos
  by (simp add: body_forces_def Let_def Projectile_init_def AeroDatabase_init_def try_load_def
      get_cd_def)

lemma radians_10_pos: "0 < radians 10"
  by (simp add: radians_def)

lemma clip_abs: "0 \<le> b \<Longrightarrow> \<bar>clip a (- b) b\<bar> \<le> b"
  by (auto simp add: clip_def min_def max_def)

lemma clip_above: "- b \<le> b \<Longrightarrow> b < a \<Longrightarrow> clip a (- b) b = b"
  by (simp add: clip_def min_def max_def)

lemma clip_below: "a < - b \<Longrightarrow> - b \<le> b \<Longrightarrow> clip a (- b) b = - b"
  by (simp add: clip_def min_def max_def)

lemma los_angle_above:
  "los_angle \<lparr>c0 = 0, c1 = 3000, c2 = 0\<rparr> (Projectile_init src) = pi / 2"
  by (simp add: los_angle_def Let_def sub3_def Projectile_init_def arctan2_def)

lemma los_angle_below:
  "los_angle \<lparr>c0 = 0, c1 = 0, c2 = 0\<rparr> (Projectile_init src) = - (pi / 2)"
  by (simp add: los_angle_def Let_def sub3_def Projectile_init_def arctan2_def)

lemma vel_angle_init: "vel_angle (Projectile_init src) = 0"
  by (simp add: Projectile_init_def vel_angle_def arctan2_def)

subsection \<open>Integration order\<close>

text \<open>
  C1, as the code has it: in a call of update that starts at a non-negative altitude, each
  of the two velocity components grows by acceleration times \<open>dt\<close>, and each of the two
  position components grows by the new velocity, the one this call has just written,
  times \<open>dt\<close>.
\<close>

theorem update_euler:
  assumes "\<not> c1 (pos self) < 0"
  shows "let f = inertial_forces self
                   (body_forces cfg self (1.225 * exp (- c1 (pos self) / 8500))
                      (norm3 (vel self)) (norm3 (vel self) / 340) (alpha_cmd target_pos self));
             ax = fst f / Config_mass cfg;
             ay = snd f / Config_mass cfg - Config_g cfg;
             self' = snd (update cfg dt target_pos self)
         in c0 (vel self') = c0 (vel self) + ax * dt \<and>
            c1 (vel self') = c1 (vel self) + ay * dt \<and>
            c0 (pos self') = c0 (pos self) + c0 (vel self') * dt \<and>
            c1 (pos self') = c1 (pos self) + c1 (vel self') * dt"
  unfolding Let_def update_flying [OF assms] snd_conv
  by (cases "inertial_forces self
                   (body_forces cfg self (1.225 * exp (- c1 (pos self) / 8500))
                      (norm3 (vel self)) (norm3 (vel self) / 340) (alpha_cmd target_pos self))")
     (simp add: integrate_vel_c0 integrate_vel_c1 integrate_pos_c0 integrate_pos_c1)

theorem update_euler_witness:
  "c0 (pos (snd (update Config (1 / 100) (Config_target_pos Config)
                   (Projectile_init (Inl LoadError)))))
     = c0 (vel (snd (update Config (1 / 100) (Config_target_pos Config)
                   (Projectile_init (Inl LoadError))))) * (1 / 100) \<and>
   c1 (pos (snd (update Config (1 / 100) (Config_target_pos Config)
                   (Projectile_init (Inl LoadError)))))
     = 2000 + c1 (vel (snd (update Config (1 / 100) (Config_target_pos Config)
                   (Projectile_init (Inl LoadError))))) * (1 / 100)"
proof -
  have alt: "\<not> c1 (pos (Projectile_init (Inl LoadError))) < 0"
    by (simp add: Projectile_init_def)
  have p: "c0 (pos (Projectile_init (Inl LoadError))) = 0"
          "c1 (pos (Projectile_init (Inl LoadError))) = 2000"
    by (simp_all add: Projectile_init_def)
  show ?thesis
    using update_euler [OF alt, of Config "Config_target_pos Config" "1 / 100"]
    unfolding Let_def p by simp
qed

text \<open>
  The position does not advance by the velocity from before the call: from the initial
  state with the fallback coefficients, drag lowers the horizontal velocity first and
  the position moves by that lower velocity.
\<close>

theorem position_uses_new_velocity:
  "c0 (pos (snd (update Config (1 / 100) (Config_target_pos Config)
                   (Projectile_init (Inl LoadError)))))
     \<noteq> c0 (pos (Projectile_init (Inl LoadError)))
         + c0 (vel (Projectile_init (Inl LoadError))) * (1 / 100)"
proof -
  let ?S = "Projectile_init (Inl LoadError)"
  let ?F = "body_forces Config ?S (1.225 * exp (- c1 (pos ?S) / 8500)) (norm3 (vel ?S))
              (norm3 (vel ?S) / 340) (alpha_cmd (Config_target_pos Config) ?S)"
  have alt: "\<not> c1 (pos ?S) < 0"
    by (simp add: Projectile_init_def)
  have drag: "0 < fst ?F"
    using init_drag_pos [of "- c1 (pos ?S) / 8500" "alpha_cmd (Config_target_pos Config) ?S"]
    by (simp add: norm3_init)
  obtain Fd Fl where F: "?F = (Fd, Fl)"
    by (cases ?F)
  from drag F have Fd: "0 < Fd"
    by simp
  have f: "inertial_forces ?S ?F = (- Fd, Fl)"
    unfolding F by (simp add: inertial_forces_def gamma_init)
  have mass: "Config_mass Config = 435 / 10"
    by (simp add: Config_def)
  have "c0 (pos (snd (update Config (1 / 100) (Config_target_pos Config) ?S)))
          = c0 (pos ?S) + (c0 (vel ?S) + (- Fd) / Config_mass Config * (1 / 100)) * (1 / 100)"
    unfolding update_flying [OF alt] snd_conv f
    by (simp only: integrate_pos_c0 integrate_vel_c0)
  with Fd mass show ?thesis
    by simp
qed

subsection \<open>Ground impact\<close>

text \<open>
  C2: update returns false exactly when the altitude at the start of the call is below 0,
  and a call that returns false leaves position, velocity and orientation as they were.
\<close>

theorem update_impact_iff:
  "(\<not> fst (update cfg dt target_pos self)) = (c1 (pos self) < 0) \<and>
   (\<not> fst (update cfg dt target_pos self) \<longrightarrow>
      pos (snd (update cfg dt target_pos self)) = pos self \<and>
      vel (snd (update cfg dt target_pos self)) = vel self \<and>
      quat (snd (update cfg dt target_pos self)) = quat self)"
  by (simp add: update_def Let_def)

theorem update_impact_iff_witness:
  "\<not> fst (update Config (1 / 100) (Config_target_pos Config)
            ((Projectile_init (Inl LoadError))\<lparr>pos := \<lparr>c0 = 14000, c1 = - 1, c2 = 0\<rparr>\<rparr>)) \<and>
   pos (snd (update Config (1 / 100) (Config_target_pos Config)
            ((Projectile_init (Inl LoadError))\<lparr>pos := \<lparr>c0 = 14000, c1 = - 1, c2 = 0\<rparr>\<rparr>)))
     = \<lparr>c0 = 14000, c1 = - 1, c2 = 0\<rparr>"
  using update_impact_iff [of Config "1 / 100" "Config_target_pos Config"
      "(Projectile_init (Inl LoadError))\<lparr>pos := \<lparr>c0 = 14000, c1 = - 1, c2 = 0\<rparr>\<rparr>"]
  by simp

subsection \<open>Fallback coefficients\<close>

lemma length_col0: "length (col0 data) = length data"
  and length_col2: "length (col2 data) = length data"
  and length_col3: "length (col3 data) = length data"
  by (simp_all add: col0_def col2_def col3_def)

lemma interp1d_raises_iff:
  assumes "length x = length y"
  shows "(interp1d x y = Inl e) = (length x < 2)"
proof -
  let ?s = "sort_key (\<lambda>p. mach_key (fst p)) (zip x y)"
  from assms have len: "length ?s = length x"
    by simp
  show ?thesis
  proof (cases ?s)
    case Nil
    with len show ?thesis
      by (cases e) (simp add: interp1d_def)
  next
    case (Cons p0 t)
    show ?thesis
    proof (cases t)
      case Nil
      with Cons len show ?thesis
        by (cases e) (simp add: interp1d_def)
    next
      case (Cons p1 ps)
      with \<open>?s = p0 # t\<close> len show ?thesis
        by (simp add: interp1d_def)
    qed
  qed
qed

lemma try_load_raises_iff:
  "(try_load src = Inl e) = (src = Inl e \<or> (\<exists>data. src = Inr data \<and> length data < 2))"
proof (cases src)
  case (Inl a)
  then show ?thesis
    by (simp add: try_load_def)
next
  case (Inr data)
  have cd: "(interp1d (col0 data) (col2 data) = Inl e') = (length data < 2)" for e'
    using interp1d_raises_iff [of "col0 data" "col2 data" e']
    by (simp add: length_col0 length_col2)
  have cl: "(interp1d (col0 data) (col3 data) = Inl e') = (length data < 2)" for e'
    using interp1d_raises_iff [of "col0 data" "col3 data" e']
    by (simp add: length_col0 length_col3)
  show ?thesis
  proof (cases "length data < 2")
    case True
    with cd [of LoadError] Inr show ?thesis
      by (cases e) (simp add: try_load_def)
  next
    case False
    with cd cl Inr show ?thesis
      by (auto simp add: try_load_def split: sum.splits)
  qed
qed

text \<open>
  C3, as the code has it: when the try block raises, which it does when
  \<^verbatim>\<open>np.genfromtxt\<close> raises and when the table has fewer than two rows, the constructor
  returns a database whose lookups answer 0.67 for the drag coefficient and 2.0 for the
  lift-curve slope at every Mach number.
\<close>

theorem aero_fallback:
  assumes "genfromtxt = Inl e \<or> (\<exists>data. genfromtxt = Inr data \<and> length data < 2)"
  shows "try_load genfromtxt = Inl LoadError \<and>
         call_curve (cd_curve (AeroDatabase_init genfromtxt)) mach = Some (67 / 100) \<and>
         call_curve (cl_curve (AeroDatabase_init genfromtxt)) mach = Some 2 \<and>
         get_cd (AeroDatabase_init genfromtxt) mach = 67 / 100 \<and>
         get_cl_alpha (AeroDatabase_init genfromtxt) mach = 2"
proof -
  from assms have "try_load genfromtxt = Inl LoadError"
    using try_load_raises_iff [of genfromtxt LoadError] by (cases e) auto
  then show ?thesis
    by (simp add: AeroDatabase_init_def get_cd_def get_cl_alpha_def)
qed

theorem aero_fallback_witness:
  "get_cd (AeroDatabase_init (Inl LoadError)) (- 1) = 67 / 100 \<and>
   get_cl_alpha (AeroDatabase_init (Inl LoadError)) 0 = 2 \<and>
   try_load (Inr [(Some 1, Some 0, Some (3 / 10), Some 2)]) = Inl LoadError \<and>
   get_cd (AeroDatabase_init (Inr [(Some 1, Some 0, Some (3 / 10), Some 2)])) 2 = 67 / 100"
proof -
  have a: "Inl LoadError = Inl LoadError \<or>
      (\<exists>data :: row list. Inl LoadError = Inr data \<and> length data < 2)"
    by simp
  have b: "Inr [(Some 1, Some 0, Some (3 / 10), Some 2)] = Inl LoadError \<or>
      (\<exists>data :: row list. Inr [(Some 1, Some 0, Some (3 / 10), Some 2)] = Inr data \<and>
         length data < 2)"
    by simp
  from aero_fallback [OF a, of "- 1"] aero_fallback [OF a, of 0] aero_fallback [OF b, of 2]
  show ?thesis
    by simp
qed

text \<open>
  A malformed row does not make the try block raise: with a cell that is not a number
  (delivered as nan) the table loads, the fallback is not installed, and the drag lookup
  on the segment that holds the cell is nan, not 0.67.
\<close>

theorem malformed_cell_loads:
  "try_load (Inr [(Some 1, Some 0, None, Some 2),
                  (Some 2, Some 0, Some (1 / 2), Some 2),
                  (Some 3, Some 0, Some (2 / 5), Some 2)])
     = Inr \<lparr>cd_curve = Interp (Some 1, None) (Some 2, Some (1 / 2)) [(Some 3, Some (2 / 5))],
            cl_curve = Interp (Some 1, Some 2) (Some 2, Some 2) [(Some 3, Some 2)]\<rparr> \<and>
   call_curve
     (cd_curve (AeroDatabase_init (Inr [(Some 1, Some 0, None, Some 2),
                                        (Some 2, Some 0, Some (1 / 2), Some 2),
                                        (Some 3, Some 0, Some (2 / 5), Some 2)]))) (3 / 2)
     = None \<and>
   call_curve
     (cd_curve (AeroDatabase_init (Inr [(Some 1, Some 0, None, Some 2),
                                        (Some 2, Some 0, Some (1 / 2), Some 2),
                                        (Some 3, Some 0, Some (2 / 5), Some 2)]))) (3 / 2)
     \<noteq> Some (67 / 100)"
  by (simp add: AeroDatabase_init_def try_load_def interp1d_def col0_def col2_def col3_def
      mach_key_def not_above_def)

subsection \<open>Guidance\<close>

text \<open>
  C5: the commanded angle of attack is three times the difference of line-of-sight angle
  and flight-path angle, clipped to plus and minus ten degrees: its magnitude is at most
  ten degrees, it is the bound itself when the product lies beyond the bound, and it is
  the angle that the lift of a flying update is computed from.
\<close>

theorem alpha_cmd_clamped:
  "alpha_cmd target_pos self
     = clip (3 * (los_angle target_pos self - vel_angle self)) (- radians 10) (radians 10) \<and>
   \<bar>alpha_cmd target_pos self\<bar> \<le> radians 10 \<and>
   (radians 10 < 3 * (los_angle target_pos self - vel_angle self) \<longrightarrow>
      alpha_cmd target_pos self = radians 10) \<and>
   (3 * (los_angle target_pos self - vel_angle self) < - radians 10 \<longrightarrow>
      alpha_cmd target_pos self = - radians 10) \<and>
   (\<not> c1 (pos self) < 0 \<longrightarrow>
      snd (update cfg dt target_pos self)
        = integrate cfg dt self
            (inertial_forces self
               (let mach = norm3 (vel self) / 340;
                    q = 0.5 * (1.225 * exp (- c1 (pos self) / 8500)) * (norm3 (vel self))\<^sup>2
                          * Config_area cfg
                in (q * get_cd (aero self) mach,
                    q * (get_cl_alpha (aero self) mach * alpha_cmd target_pos self)))))"
proof -
  have a: "alpha_cmd target_pos self
     = clip (3 * (los_angle target_pos self - vel_angle self)) (- radians 10) (radians 10)"
    by (simp add: alpha_cmd_def Let_def)
  have b: "\<bar>alpha_cmd target_pos self\<bar> \<le> radians 10"
    unfolding a using radians_10_pos by (intro clip_abs) simp
  have c: "radians 10 < 3 * (los_angle target_pos self - vel_angle self) \<longrightarrow>
      alpha_cmd target_pos self = radians 10"
    unfolding a using radians_10_pos by (auto intro!: clip_above)
  have d: "3 * (los_angle target_pos self - vel_angle self) < - radians 10 \<longrightarrow>
      alpha_cmd target_pos self = - radians 10"
    unfolding a using radians_10_pos by (auto intro!: clip_below)
  have e: "\<not> c1 (pos self) < 0 \<longrightarrow>
      snd (update cfg dt target_pos self)
        = integrate cfg dt self
            (inertial_forces self
               (let mach = norm3 (vel self) / 340;
                    q = 0.5 * (1.225 * exp (- c1 (pos self) / 8500)) * (norm3 (vel self))\<^sup>2
                          * Config_area cfg
                in (q * get_cd (aero self) mach,
                    q * (get_cl_alpha (aero self) mach * alpha_cmd target_pos self))))"
    by (simp add: update_flying body_forces_def Let_def)
  from a b c d e show ?thesis
    by blast
qed

theorem alpha_cmd_clamped_witness:
  "radians 10 < 3 * (los_angle \<lparr>c0 = 0, c1 = 3000, c2 = 0\<rparr> (Projectile_init (Inl LoadError))
                      - vel_angle (Projectile_init (Inl LoadError))) \<and>
   alpha_cmd \<lparr>c0 = 0, c1 = 3000, c2 = 0\<rparr> (Projectile_init (Inl LoadError)) = radians 10 \<and>
   3 * (los_angle \<lparr>c0 = 0, c1 = 0, c2 = 0\<rparr> (Projectile_init (Inl LoadError))
          - vel_angle (Projectile_init (Inl LoadError))) < - radians 10 \<and>
   alpha_cmd \<lparr>c0 = 0, c1 = 0, c2 = 0\<rparr> (Projectile_init (Inl LoadError)) = - radians 10 \<and>
   \<not> c1 (pos (Projectile_init (Inl LoadError))) < 0 \<and>
   snd (update Config (1 / 100) \<lparr>c0 = 0, c1 = 3000, c2 = 0\<rparr> (Projectile_init (Inl LoadError)))
     = integrate Config (1 / 100) (Projectile_init (Inl LoadError))
         (inertial_forces (Projectile_init (Inl LoadError))
            (let mach = norm3 (vel (Projectile_init (Inl LoadError))) / 340;
                 q = 0.5 * (1.225 * exp (- c1 (pos (Projectile_init (Inl LoadError))) / 8500))
                       * (norm3 (vel (Projectile_init (Inl LoadError))))\<^sup>2 * Config_area Config
             in (q * get_cd (aero (Projectile_init (Inl LoadError))) mach,
                 q * (get_cl_alpha (aero (Projectile_init (Inl LoadError))) mach * radians 10))))"
proof -
  have up: "radians 10 < 3 * (los_angle \<lparr>c0 = 0, c1 = 3000, c2 = 0\<rparr> (Projectile_init (Inl LoadError))
                      - vel_angle (Projectile_init (Inl LoadError)))"
    by (simp add: los_angle_above vel_angle_init radians_def)
  have down: "3 * (los_angle \<lparr>c0 = 0, c1 = 0, c2 = 0\<rparr> (Projectile_init (Inl LoadError))
          - vel_angle (Projectile_init (Inl LoadError))) < - radians 10"
    by (simp add: los_angle_below vel_angle_init radians_def)
  have alt: "\<not> c1 (pos (Projectile_init (Inl LoadError))) < 0"
    by (simp add: Projectile_init_def)
  note above = alpha_cmd_clamped [of "\<lparr>c0 = 0, c1 = 3000, c2 = 0\<rparr>"
      "Projectile_init (Inl LoadError)" Config "1 / 100"]
  note below = alpha_cmd_clamped [of "\<lparr>c0 = 0, c1 = 0, c2 = 0\<rparr>"
      "Projectile_init (Inl LoadError)" Config "1 / 100"]
  have hi: "alpha_cmd \<lparr>c0 = 0, c1 = 3000, c2 = 0\<rparr> (Projectile_init (Inl LoadError)) = radians 10"
    using above up by blast
  have lo: "alpha_cmd \<lparr>c0 = 0, c1 = 0, c2 = 0\<rparr> (Projectile_init (Inl LoadError)) = - radians 10"
    using below down by blast
  have lift: "snd (update Config (1 / 100) \<lparr>c0 = 0, c1 = 3000, c2 = 0\<rparr> (Projectile_init (Inl LoadError)))
     = integrate Config (1 / 100) (Projectile_init (Inl LoadError))
         (inertial_forces (Projectile_init (Inl LoadError))
            (let mach = norm3 (vel (Projectile_init (Inl LoadError))) / 340;
                 q = 0.5 * (1.225 * exp (- c1 (pos (Projectile_init (Inl LoadError))) / 8500))
                       * (norm3 (vel (Projectile_init (Inl LoadError))))\<^sup>2 * Config_area Config
             in (q * get_cd (aero (Projectile_init (Inl LoadError))) mach,
                 q * (get_cl_alpha (aero (Projectile_init (Inl LoadError))) mach
                        * alpha_cmd \<lparr>c0 = 0, c1 = 3000, c2 = 0\<rparr> (Projectile_init (Inl LoadError))))))"
    using above alt by blast
  from up hi down lo alt lift [unfolded hi] show ?thesis
    by (intro conjI)
qed

subsection \<open>Force resolution\<close>

text \<open>
  C6: in a call of update that returns true, the force on the inertial axes is
  \<open>Fx = - Fdrag cos \<gamma> - Flift sin \<gamma>\<close> and \<open>Fy = - Fdrag sin \<gamma> + Flift cos \<gamma>\<close>, with
  \<open>\<gamma>\<close> the flight-path angle of the velocity, drag and lift the dynamic pressure times
  their coefficients; it is this force, divided by the mass, that moves the velocity.
\<close>

theorem update_forces:
  assumes "fst (update cfg dt target_pos self)"
  shows "let speed = norm3 (vel self);
             rho = 1.225 * exp (- c1 (pos self) / 8500);
             mach = speed / 340;
             \<gamma> = arctan2 (c1 (vel self)) (c0 (vel self));
             q = 0.5 * rho * speed\<^sup>2 * Config_area cfg;
             Fdrag = q * get_cd (aero self) mach;
             Flift = q * (get_cl_alpha (aero self) mach * alpha_cmd target_pos self);
             Fx = - Fdrag * cos \<gamma> - Flift * sin \<gamma>;
             Fy = - Fdrag * sin \<gamma> + Flift * cos \<gamma>
         in inertial_forces self (body_forces cfg self rho speed mach (alpha_cmd target_pos self))
              = (Fx, Fy) \<and>
            snd (update cfg dt target_pos self) = integrate cfg dt self (Fx, Fy) \<and>
            c0 (vel (snd (update cfg dt target_pos self)))
              = c0 (vel self) + Fx / Config_mass cfg * dt \<and>
            c1 (vel (snd (update cfg dt target_pos self)))
              = c1 (vel self) + (Fy / Config_mass cfg - Config_g cfg) * dt"
proof -
  from assms have alt: "\<not> c1 (pos self) < 0"
    by (simp add: update_def Let_def split: if_splits)
  show ?thesis
    unfolding Let_def update_flying [OF alt] snd_conv
    by (simp add: inertial_forces_def body_forces_def Let_def gamma_def
        integrate_vel_c0 integrate_vel_c1)
qed

theorem update_forces_witness:
  "fst (update Config (1 / 100) (Config_target_pos Config) (Projectile_init (Inl LoadError))) \<and>
   c0 (vel (snd (update Config (1 / 100) (Config_target_pos Config)
                   (Projectile_init (Inl LoadError)))))
     = 680 + - (0.5 * (1.225 * exp (- 2000 / 8500)) * 680\<^sup>2 * Config_area Config * (67 / 100))
               / Config_mass Config * (1 / 100)"
proof -
  have fl: "fst (update Config (1 / 100) (Config_target_pos Config)
                   (Projectile_init (Inl LoadError)))"
    by (simp add: update_def Let_def Projectile_init_def)
  have v: "vel (Projectile_init (Inl LoadError)) = \<lparr>c0 = 680, c1 = 0, c2 = 0\<rparr>"
          "c1 (pos (Projectile_init (Inl LoadError))) = 2000"
          "get_cd (aero (Projectile_init (Inl LoadError))) m = 67 / 100" for m
    by (simp_all add: Projectile_init_def AeroDatabase_init_def try_load_def get_cd_def)
  show ?thesis
    using fl update_forces [OF fl]
    unfolding Let_def norm3_init v
    by (simp add: arctan2_def norm3_def integrate_vel_c0 v)
qed

text \<open>
  C7: a call of update that passes the altitude test gives the result computed with one
  angle, the arctan2 of the velocity the call started with, in both places: as the
  flight-path angle of the guidance step and as the angle of the frame resolution. The
  two angles of the source are that one number.
\<close>

theorem update_one_flight_path_angle:
  assumes "\<not> c1 (pos self) < 0"
  shows "let \<theta> = arctan2 (c1 (vel self)) (c0 (vel self));
             alpha = clip (3 * (los_angle target_pos self - \<theta>)) (- radians 10) (radians 10);
             F = body_forces cfg self (1.225 * exp (- c1 (pos self) / 8500)) (norm3 (vel self))
                   (norm3 (vel self) / 340) alpha
         in vel_angle self = \<theta> \<and> gamma self = \<theta> \<and>
            update cfg dt target_pos self
              = (True, integrate cfg dt self
                         (- fst F * cos \<theta> - snd F * sin \<theta>,
                          - fst F * sin \<theta> + snd F * cos \<theta>))"
proof -
  have a: "vel_angle self = arctan2 (c1 (vel self)) (c0 (vel self))"
    by (simp add: vel_angle_def)
  have g: "gamma self = arctan2 (c1 (vel self)) (c0 (vel self))"
    by (simp add: gamma_def)
  have al: "alpha_cmd target_pos self
      = clip (3 * (los_angle target_pos self - arctan2 (c1 (vel self)) (c0 (vel self))))
          (- radians 10) (radians 10)"
    by (simp add: alpha_cmd_def Let_def a)
  have f: "inertial_forces self F
      = (- fst F * cos (arctan2 (c1 (vel self)) (c0 (vel self)))
           - snd F * sin (arctan2 (c1 (vel self)) (c0 (vel self))),
         - fst F * sin (arctan2 (c1 (vel self)) (c0 (vel self)))
           + snd F * cos (arctan2 (c1 (vel self)) (c0 (vel self))))" for F
    by (cases F) (simp add: inertial_forces_def Let_def g)
  show ?thesis
    unfolding Let_def update_flying [OF assms] al f
    using a g by simp
qed

theorem update_one_flight_path_angle_witness:
  "\<not> c1 (pos (Projectile_init (Inl LoadError))) < 0 \<and>
   vel_angle (Projectile_init (Inl LoadError)) = 0 \<and>
   gamma (Projectile_init (Inl LoadError)) = 0 \<and>
   fst (update Config (1 / 100) (Config_target_pos Config) (Projectile_init (Inl LoadError)))"
proof -
  have alt: "\<not> c1 (pos (Projectile_init (Inl LoadError))) < 0"
    by (simp add: Projectile_init_def)
  have zero: "arctan2 (c1 (vel (Projectile_init (Inl LoadError))))
                (c0 (vel (Projectile_init (Inl LoadError)))) = 0"
    by (simp add: Projectile_init_def arctan2_def)
  from alt update_one_flight_path_angle [OF alt, of "Config_target_pos Config" Config "1 / 100"]
  show ?thesis
    unfolding Let_def zero by simp
qed

subsection \<open>Interpolated coefficients\<close>

lemma interp_call_first:
  "not_above x (fst hi) \<Longrightarrow> interp_call lo hi ps x = segment lo hi x"
  by (cases ps) simp_all

lemma mach_key_le_number:
  assumes "mach_key a \<le> mach_key (Some b)"
  obtains h where "a = Some h" and "h \<le> b"
  using assms by (cases a) (simp_all add: mach_key_def)

lemma interp_call_last:
  "sorted (map (\<lambda>p. mach_key (fst p)) (lo # hi # ps)) \<Longrightarrow>
   fst (last (lo # hi # ps)) = Some xb \<Longrightarrow> xb < x \<Longrightarrow>
   interp_call lo hi ps x = segment (last (butlast (lo # hi # ps))) (last (lo # hi # ps)) x"
proof (induction ps arbitrary: lo hi)
  case Nil
  then show ?case by simp
next
  case (Cons p ps)
  from Cons.prems(1) have "mach_key (fst hi) \<le> mach_key (fst (last (p # ps)))"
    by (cases "ps = []") auto
  with Cons.prems(2) have "mach_key (fst hi) \<le> mach_key (Some xb)"
    by simp
  then obtain h where "fst hi = Some h" and "h \<le> xb"
    by (rule mach_key_le_number)
  with Cons.prems(3) have far: "\<not> not_above x (fst hi)"
    by (simp add: not_above_def)
  from Cons.prems have "sorted (map (\<lambda>p. mach_key (fst p)) (hi # p # ps))"
    and "fst (last (hi # p # ps)) = Some xb"
    by simp_all
  from Cons.IH [OF this Cons.prems(3)] far show ?case
    by simp
qed

lemma interp1d_samples:
  assumes "interp1d x y = Inr c"
  obtains p0 p1 ps where "sort_key (\<lambda>p. mach_key (fst p)) (zip x y) = p0 # p1 # ps"
    and "c = Interp p0 p1 ps"
  using assms by (auto simp add: interp1d_def split: list.splits)

lemma interp1d_below:
  assumes "interp1d x y = Inr c"
    and "sort_key (\<lambda>p. mach_key (fst p)) (zip x y) ! 0 = (Some x0, Some y0)"
    and "sort_key (\<lambda>p. mach_key (fst p)) (zip x y) ! 1 = (Some x1, Some y1)"
    and "x0 \<noteq> x1" and "m < x0"
  shows "call_curve c m = Some ((y1 - y0) / (x1 - x0) * (m - x0) + y0)"
proof -
  from assms(1) obtain p0 p1 ps
    where s: "sort_key (\<lambda>p. mach_key (fst p)) (zip x y) = p0 # p1 # ps"
      and c: "c = Interp p0 p1 ps"
    by (rule interp1d_samples)
  from s assms(2,3) have p: "p0 = (Some x0, Some y0)" "p1 = (Some x1, Some y1)"
    by simp_all
  have "sorted (map (\<lambda>p. mach_key (fst p)) (sort_key (\<lambda>p. mach_key (fst p)) (zip x y)))"
    by (rule sorted_sort_key)
  with s p have "x0 \<le> x1"
    by (simp add: mach_key_def)
  with assms(5) have "not_above m (fst p1)"
    by (simp add: p not_above_def)
  then have "interp_call p0 p1 ps m = segment p0 p1 m"
    by (rule interp_call_first)
  with assms(4) show ?thesis
    by (simp add: c p)
qed

lemma interp1d_above:
  assumes "interp1d x y = Inr c"
    and "last (butlast (sort_key (\<lambda>p. mach_key (fst p)) (zip x y))) = (Some xa, Some ya)"
    and "last (sort_key (\<lambda>p. mach_key (fst p)) (zip x y)) = (Some xb, Some yb)"
    and "xa \<noteq> xb" and "xb < m"
  shows "call_curve c m = Some ((yb - ya) / (xb - xa) * (m - xa) + ya)"
proof -
  from assms(1) obtain p0 p1 ps
    where s: "sort_key (\<lambda>p. mach_key (fst p)) (zip x y) = p0 # p1 # ps"
      and c: "c = Interp p0 p1 ps"
    by (rule interp1d_samples)
  have "sorted (map (\<lambda>p. mach_key (fst p)) (sort_key (\<lambda>p. mach_key (fst p)) (zip x y)))"
    by (rule sorted_sort_key)
  with s have "sorted (map (\<lambda>p. mach_key (fst p)) (p0 # p1 # ps))"
    by simp
  moreover from assms(3) s have "fst (last (p0 # p1 # ps)) = Some xb"
    by simp
  ultimately have "interp_call p0 p1 ps m
      = segment (last (butlast (p0 # p1 # ps))) (last (p0 # p1 # ps)) m"
    using assms(5) by (rule interp_call_last)
  also from assms(2,3) s have "\<dots> = segment (Some xa, Some ya) (Some xb, Some yb) m"
    by simp
  finally show ?thesis
    using assms(4) by (simp add: c)
qed

lemma AeroDatabase_init_loaded:
  assumes "2 \<le> length data"
  obtains cd cl where "interp1d (col0 data) (col2 data) = Inr cd"
    and "interp1d (col0 data) (col3 data) = Inr cl"
    and "try_load (Inr data) = Inr \<lparr>cd_curve = cd, cl_curve = cl\<rparr>"
    and "AeroDatabase_init (Inr data) = \<lparr>cd_curve = cd, cl_curve = cl\<rparr>"
proof -
  from assms have "interp1d (col0 data) (col2 data) \<noteq> Inl LoadError"
    using interp1d_raises_iff [of "col0 data" "col2 data" LoadError]
    by (simp add: length_col0 length_col2)
  then obtain cd where cd: "interp1d (col0 data) (col2 data) = Inr cd"
    by (cases "interp1d (col0 data) (col2 data)") (auto intro: load_error.exhaust)
  from assms have "interp1d (col0 data) (col3 data) \<noteq> Inl LoadError"
    using interp1d_raises_iff [of "col0 data" "col3 data" LoadError]
    by (simp add: length_col0 length_col3)
  then obtain cl where cl: "interp1d (col0 data) (col3 data) = Inr cl"
    by (cases "interp1d (col0 data) (col3 data)") (auto intro: load_error.exhaust)
  from cd cl that show ?thesis
    by (simp add: try_load_def AeroDatabase_init_def)
qed

text \<open>
  C4, as the model has it: a table of two rows or more loads. Below the lowest sampled
  Mach number a lookup returns the value of the line through the two lowest samples, when
  these are numbers with different Mach values; above the highest sampled Mach number it
  returns the value of the line through the two highest samples, under the same
  condition. It is not the value at the boundary.
\<close>

theorem interp_extrapolates:
  assumes "2 \<le> length data"
  shows "let db = AeroDatabase_init (Inr data);
             cd = sort_key (\<lambda>p. mach_key (fst p)) (zip (col0 data) (col2 data));
             cl = sort_key (\<lambda>p. mach_key (fst p)) (zip (col0 data) (col3 data))
         in (\<exists>loaded. try_load (Inr data) = Inr loaded) \<and>
            (\<forall>x0 y0 x1 y1.
               cd ! 0 = (Some x0, Some y0) \<and> cd ! 1 = (Some x1, Some y1) \<and> x0 \<noteq> x1 \<and>
               mach < x0 \<longrightarrow>
               call_curve (cd_curve db) mach = Some ((y1 - y0) / (x1 - x0) * (mach - x0) + y0) \<and>
               get_cd db mach = (y1 - y0) / (x1 - x0) * (mach - x0) + y0) \<and>
            (\<forall>xa ya xb yb.
               last (butlast cd) = (Some xa, Some ya) \<and> last cd = (Some xb, Some yb) \<and>
               xa \<noteq> xb \<and> xb < mach \<longrightarrow>
               call_curve (cd_curve db) mach = Some ((yb - ya) / (xb - xa) * (mach - xa) + ya) \<and>
               get_cd db mach = (yb - ya) / (xb - xa) * (mach - xa) + ya) \<and>
            (\<forall>x0 y0 x1 y1.
               cl ! 0 = (Some x0, Some y0) \<and> cl ! 1 = (Some x1, Some y1) \<and> x0 \<noteq> x1 \<and>
               mach < x0 \<longrightarrow>
               call_curve (cl_curve db) mach = Some ((y1 - y0) / (x1 - x0) * (mach - x0) + y0) \<and>
               get_cl_alpha db mach = (y1 - y0) / (x1 - x0) * (mach - x0) + y0) \<and>
            (\<forall>xa ya xb yb.
               last (butlast cl) = (Some xa, Some ya) \<and> last cl = (Some xb, Some yb) \<and>
               xa \<noteq> xb \<and> xb < mach \<longrightarrow>
               call_curve (cl_curve db) mach = Some ((yb - ya) / (xb - xa) * (mach - xa) + ya) \<and>
               get_cl_alpha db mach = (yb - ya) / (xb - xa) * (mach - xa) + ya)"
proof -
  from assms obtain cd cl where cd: "interp1d (col0 data) (col2 data) = Inr cd"
    and cl: "interp1d (col0 data) (col3 data) = Inr cl"
    and ok: "try_load (Inr data) = Inr \<lparr>cd_curve = cd, cl_curve = cl\<rparr>"
    and db: "AeroDatabase_init (Inr data) = \<lparr>cd_curve = cd, cl_curve = cl\<rparr>"
    by (rule AeroDatabase_init_loaded)
  show ?thesis
    unfolding Let_def db get_cd_def get_cl_alpha_def
    using ok interp1d_below [OF cd] interp1d_above [OF cd]
      interp1d_below [OF cl] interp1d_above [OF cl]
    by simp
qed

theorem interp_extrapolates_witness:
  "get_cd (AeroDatabase_init (Inr [(Some 1, Some 0, Some (3 / 10), Some 2),
                                   (Some 2, Some 0, Some (1 / 2), Some 2),
                                   (Some 3, Some 0, Some (2 / 5), Some 2)])) (1 / 2) = 1 / 5 \<and>
   get_cd (AeroDatabase_init (Inr [(Some 1, Some 0, Some (3 / 10), Some 2),
                                   (Some 2, Some 0, Some (1 / 2), Some 2),
                                   (Some 3, Some 0, Some (2 / 5), Some 2)])) 4 = 3 / 10 \<and>
   call_curve (cd_curve (AeroDatabase_init (Inr [(Some 1, Some 0, Some (3 / 10), Some 2),
                                                 (Some 2, Some 0, Some (1 / 2), Some 2),
                                                 (Some 3, Some 0, Some (2 / 5), Some 2)]))) (- 1)
     = Some (- (1 / 10))"
proof -
  let ?data = "[(Some 1, Some 0, Some (3 / 10), Some 2), (Some 2, Some 0, Some (1 / 2), Some 2),
                (Some 3, Some 0, Some (2 / 5), Some 2)] :: row list"
  have len: "2 \<le> length ?data"
    by simp
  have s: "sort_key (\<lambda>p. mach_key (fst p)) (zip (col0 ?data) (col2 ?data))
             = [(Some 1, Some (3 / 10)), (Some 2, Some (1 / 2)), (Some 3, Some (2 / 5))]"
    "sort_key (\<lambda>p. mach_key (fst p)) (zip (col0 ?data) (col3 ?data))
             = [(Some 1, Some 2), (Some 2, Some 2), (Some 3, Some 2)]"
    by (simp_all add: col0_def col2_def col3_def mach_key_def)
  have below: "get_cd (AeroDatabase_init (Inr ?data)) (1 / 2)
      = (1 / 2 - 3 / 10) / (2 - 1) * (1 / 2 - 1) + 3 / 10"
    using interp_extrapolates [OF len, of "1 / 2", unfolded Let_def s, THEN conjunct2,
        THEN conjunct1, rule_format, of 1 "3 / 10" 2 "1 / 2"]
    by simp
  have above: "get_cd (AeroDatabase_init (Inr ?data)) 4
      = (2 / 5 - 1 / 2) / (3 - 2) * (4 - 2) + 1 / 2"
    using interp_extrapolates [OF len, of 4, unfolded Let_def s, THEN conjunct2,
        THEN conjunct2, THEN conjunct1, rule_format, of 2 "1 / 2" 3 "2 / 5"]
    by simp
  have negative: "call_curve (cd_curve (AeroDatabase_init (Inr ?data))) (- 1)
      = Some ((1 / 2 - 3 / 10) / (2 - 1) * (- 1 - 1) + 3 / 10)"
    using interp_extrapolates [OF len, of "- 1", unfolded Let_def s, THEN conjunct2,
        THEN conjunct1, rule_format, of 1 "3 / 10" 2 "1 / 2"]
    by simp
  from below above negative show ?thesis
    by simp
qed

text \<open>
  A loaded table need not give a value outside its range: when its two lowest rows share
  their Mach number the boundary segment has no slope, and the lookup below the range
  yields no real number.
\<close>

theorem repeated_mach_not_extended:
  "try_load (Inr [(Some 1, Some 0, Some (3 / 10), Some 2),
                  (Some 1, Some 5, Some (1 / 4), Some 2),
                  (Some 2, Some 0, Some (1 / 2), Some 2),
                  (Some 3, Some 0, Some (2 / 5), Some 2)])
     = Inr \<lparr>cd_curve = Interp (Some 1, Some (3 / 10)) (Some 1, Some (1 / 4))
                         [(Some 2, Some (1 / 2)), (Some 3, Some (2 / 5))],
            cl_curve = Interp (Some 1, Some 2) (Some 1, Some 2) [(Some 2, Some 2), (Some 3, Some 2)]\<rparr> \<and>
   call_curve
     (cd_curve (AeroDatabase_init (Inr [(Some 1, Some 0, Some (3 / 10), Some 2),
                                        (Some 1, Some 5, Some (1 / 4), Some 2),
                                        (Some 2, Some 0, Some (1 / 2), Some 2),
                                        (Some 3, Some 0, Some (2 / 5), Some 2)]))) (1 / 2)
     = None"
  by (simp add: AeroDatabase_init_def try_load_def interp1d_def col0_def col2_def col3_def
      mach_key_def not_above_def)

subsection \<open>The loop\<close>

lemma run_loop_timeout:
  "\<not> t < Config_max_time cfg \<Longrightarrow> run_loop cfg t m hist calls = Some (hist, calls)"
  by (subst run_loop.simps) simp

lemma run_loop_impact:
  assumes "t < Config_max_time cfg"
    and "\<not> fst (update cfg (Config_dt cfg) (Config_target_pos cfg) m)"
  shows "run_loop cfg t m hist calls
     = Some (hist, calls @ [(t, update cfg (Config_dt cfg) (Config_target_pos cfg) m)])"
proof -
  obtain flying m' where u: "update cfg (Config_dt cfg) (Config_target_pos cfg) m = (flying, m')"
    by (cases "update cfg (Config_dt cfg) (Config_target_pos cfg) m")
  with assms run_loop.simps [of cfg t m hist calls] show ?thesis
    by simp
qed

lemma run_loop_step:
  assumes "t < Config_max_time cfg"
    and "fst (update cfg (Config_dt cfg) (Config_target_pos cfg) m)"
  shows "run_loop cfg t m hist calls
     = run_loop cfg (t + Config_dt cfg)
         (snd (update cfg (Config_dt cfg) (Config_target_pos cfg) m))
         (record_data hist (snd (update cfg (Config_dt cfg) (Config_target_pos cfg) m)))
         (calls @ [(t, update cfg (Config_dt cfg) (Config_target_pos cfg) m)])"
proof -
  obtain flying m' where u: "update cfg (Config_dt cfg) (Config_target_pos cfg) m = (flying, m')"
    by (cases "update cfg (Config_dt cfg) (Config_target_pos cfg) m")
  with assms run_loop.simps [of cfg t m hist calls] show ?thesis
    by simp
qed

lemma run_loop_returns:
  assumes "0 < Config_dt cfg"
    and "Config_max_time cfg - t \<le> real n * Config_dt cfg"
  shows "\<exists>cs. run_loop cfg t m hist calls = Some (samples hist cs, calls @ cs) \<and>
              valid_calls cfg t m cs"
  using assms(2)
proof (induction n arbitrary: t m hist calls)
  case 0
  then have "\<not> t < Config_max_time cfg"
    by simp
  then have "run_loop cfg t m hist calls = Some (samples hist [], calls @ []) \<and>
             valid_calls cfg t m []"
    by (simp add: run_loop_timeout samples_def)
  then show ?case
    by blast
next
  case (Suc n)
  let ?u = "update cfg (Config_dt cfg) (Config_target_pos cfg) m"
  show ?case
  proof (cases "t < Config_max_time cfg")
    case False
    then have "run_loop cfg t m hist calls = Some (samples hist [], calls @ []) \<and>
               valid_calls cfg t m []"
      by (simp add: run_loop_timeout samples_def)
    then show ?thesis
      by blast
  next
    case True
    show ?thesis
    proof (cases "fst ?u")
      case False
      with True have "run_loop cfg t m hist calls
                        = Some (samples hist [(t, ?u)], calls @ [(t, ?u)]) \<and>
                      valid_calls cfg t m [(t, ?u)]"
        by (simp add: run_loop_impact samples_def)
      then show ?thesis
        by blast
    next
      case flying: True
      from Suc.prems have "Config_max_time cfg - (t + Config_dt cfg) \<le> real n * Config_dt cfg"
        by (simp add: algebra_simps)
      from Suc.IH [OF this, of "snd ?u" "record_data hist (snd ?u)" "calls @ [(t, ?u)]"]
      obtain cs where run: "run_loop cfg (t + Config_dt cfg) (snd ?u)
            (record_data hist (snd ?u)) (calls @ [(t, ?u)])
          = Some (samples (record_data hist (snd ?u)) cs, (calls @ [(t, ?u)]) @ cs)"
        and ok: "valid_calls cfg (t + Config_dt cfg) (snd ?u) cs"
        by blast
      from True flying run ok
      have "run_loop cfg t m hist calls
              = Some (samples hist ((t, ?u) # cs), calls @ (t, ?u) # cs) \<and>
            valid_calls cfg t m ((t, ?u) # cs)"
        by (simp add: run_loop_step samples_def)
      then show ?thesis
        by blast
    qed
  qed
qed

lemma enough_steps:
  assumes "0 < (d::real)"
  shows "\<exists>n. T - t \<le> real n * d"
proof -
  obtain n where "(T - t) / d \<le> real n"
    using real_arch_simple by blast
  with assms have "T - t \<le> real n * d"
    by (simp add: pos_divide_le_eq)
  then show ?thesis
    by blast
qed

lemma run_loop_valid:
  assumes "0 < Config_dt cfg"
  shows "\<exists>cs. run_loop cfg t m hist [] = Some (samples hist cs, cs) \<and> valid_calls cfg t m cs"
proof -
  from enough_steps [OF assms] obtain n
    where "Config_max_time cfg - t \<le> real n * Config_dt cfg"
    by blast
  from run_loop_returns [OF assms this, of m hist "[]"] show ?thesis
    by simp
qed

lemma valid_calls_times:
  "valid_calls cfg t m cs \<Longrightarrow>
   map fst cs = map (\<lambda>i. t + real i * Config_dt cfg) [0..<length cs]"
proof (induction cs arbitrary: t m)
  case Nil
  then show ?case by simp
next
  case (Cons c cs)
  show ?case
  proof (cases "fst (snd c)")
    case True
    with Cons.prems have "valid_calls cfg (t + Config_dt cfg) (snd (snd c)) cs"
      by auto
    from Cons.IH [OF this]
    have "map fst cs = map (\<lambda>i. t + real (Suc i) * Config_dt cfg) [0..<length cs]"
      by (simp add: algebra_simps)
    moreover have "map (\<lambda>i. t + real i * Config_dt cfg) [0..<Suc (length cs)]
        = t # map (\<lambda>i. t + real (Suc i) * Config_dt cfg) [0..<length cs]"
      by (simp only: upt_conv_Cons [of 0] zero_less_Suc list.map map_Suc_upt [symmetric] map_map o_def)
         simp
    moreover from Cons.prems have "fst c = t"
      by simp
    ultimately show ?thesis
      by simp
  next
    case False
    with Cons.prems show ?thesis
      by simp
  qed
qed

lemma valid_calls_before_timeout:
  "valid_calls cfg t m cs \<Longrightarrow> c \<in> set cs \<Longrightarrow> fst c < Config_max_time cfg"
proof (induction cs arbitrary: t m)
  case Nil
  then show ?case by simp
next
  case (Cons a cs)
  from Cons.prems have a: "fst a < Config_max_time cfg"
    by simp
  show ?case
  proof (cases "c = a")
    case True
    with a show ?thesis by simp
  next
    case False
    with Cons.prems have "c \<in> set cs" "cs \<noteq> []"
      by auto
    with Cons.prems have "valid_calls cfg (t + Config_dt cfg) (snd (snd a)) cs"
      by (auto split: if_splits)
    from Cons.IH [OF this \<open>c \<in> set cs\<close>] show ?thesis .
  qed
qed

lemma valid_calls_chain:
  "valid_calls cfg t m cs \<Longrightarrow> i < length cs \<Longrightarrow>
   snd (cs ! i) = update cfg (Config_dt cfg) (Config_target_pos cfg)
                    (if i = 0 then m else snd (snd (cs ! (i - 1))))"
proof (induction cs arbitrary: t m i)
  case Nil
  then show ?case by simp
next
  case (Cons a cs)
  show ?case
  proof (cases i)
    case 0
    with Cons.prems show ?thesis by simp
  next
    case (Suc j)
    with Cons.prems have j: "j < length cs" and "cs \<noteq> []"
      by auto
    with Cons.prems have "valid_calls cfg (t + Config_dt cfg) (snd (snd a)) cs"
      by (auto split: if_splits)
    from Cons.IH [OF this j] Suc show ?thesis
      by (cases j) simp_all
  qed
qed

lemma valid_calls_flying:
  "valid_calls cfg t m cs \<Longrightarrow> Suc i < length cs \<Longrightarrow> fst (snd (cs ! i))"
proof (induction cs arbitrary: t m i)
  case Nil
  then show ?case by simp
next
  case (Cons a cs)
  from Cons.prems have "cs \<noteq> []"
    by auto
  with Cons.prems have a: "fst (snd a)"
    and rest: "valid_calls cfg (t + Config_dt cfg) (snd (snd a)) cs"
    by (auto split: if_splits)
  show ?case
  proof (cases i)
    case 0
    with a show ?thesis by simp
  next
    case (Suc j)
    with Cons.prems have "Suc j < length cs"
      by simp
    from Cons.IH [OF rest this] Suc show ?thesis
      by simp
  qed
qed

lemma valid_calls_stop:
  "valid_calls cfg t m cs \<Longrightarrow>
   (cs \<noteq> [] \<and> \<not> fst (snd (last cs))) \<or>
   \<not> t + real (length cs) * Config_dt cfg < Config_max_time cfg"
proof (induction cs arbitrary: t m)
  case Nil
  then show ?case by simp
next
  case (Cons a cs)
  show ?case
  proof (cases "fst (snd a)")
    case False
    with Cons.prems show ?thesis by simp
  next
    case True
    with Cons.prems have "valid_calls cfg (t + Config_dt cfg) (snd (snd a)) cs"
      by auto
    from Cons.IH [OF this] True show ?thesis
      by (cases "cs = []") (auto simp add: algebra_simps)
  qed
qed

lemma fold_record_data:
  "fold (\<lambda>c h. record_data h (snd (snd c))) cs hist
     = \<lparr>hist_x = hist_x hist @ map (\<lambda>c. c0 (pos (snd (snd c)))) cs,
        hist_y = hist_y hist @ map (\<lambda>c. c1 (pos (snd (snd c)))) cs,
        hist_mach = hist_mach hist @ map (\<lambda>c. norm3 (vel (snd (snd c))) / 340) cs\<rparr>"
  by (induction cs arbitrary: hist) (simp_all add: record_data_def)

lemma Config_dt_pos: "0 < Config_dt Config"
  by (simp add: Config_def)

text \<open>
  C9: with a positive time step the loop returns. Its calls of update are made at the
  times \<open>0, dt, 2 dt, \<dots>\<close>, each before the maximum time and each on the object the call
  before it left; every call but the last returned true, so no call follows one that
  returned false; the loop ends after a call that returned false, or when the time has
  reached the maximum; and each of the three history lists holds one value for every call
  that returned true, in the order of the calls.
\<close>

theorem simulation_loop:
  assumes "0 < Config_dt cfg"
  shows "\<exists>hist calls.
     run_loop cfg 0 missile \<lparr>hist_x = [], hist_y = [], hist_mach = []\<rparr> [] = Some (hist, calls) \<and>
     map fst calls = map (\<lambda>i. real i * Config_dt cfg) [0..<length calls] \<and>
     (\<forall>i<length calls.
        fst (calls ! i) < Config_max_time cfg \<and>
        snd (calls ! i) = update cfg (Config_dt cfg) (Config_target_pos cfg)
                            (if i = 0 then missile else snd (snd (calls ! (i - 1))))) \<and>
     (\<forall>i. Suc i < length calls \<longrightarrow> fst (snd (calls ! i))) \<and>
     ((calls \<noteq> [] \<and> \<not> fst (snd (last calls))) \<or>
      Config_max_time cfg \<le> real (length calls) * Config_dt cfg) \<and>
     hist_x hist = map (\<lambda>c. c0 (pos (snd (snd c)))) (filter (\<lambda>c. fst (snd c)) calls) \<and>
     hist_y hist = map (\<lambda>c. c1 (pos (snd (snd c)))) (filter (\<lambda>c. fst (snd c)) calls) \<and>
     hist_mach hist
       = map (\<lambda>c. norm3 (vel (snd (snd c))) / 340) (filter (\<lambda>c. fst (snd c)) calls)"
proof -
  let ?empty = "\<lparr>hist_x = [], hist_y = [], hist_mach = []\<rparr>"
  from run_loop_valid [OF assms, of 0 missile ?empty]
  obtain cs where run: "run_loop cfg 0 missile ?empty [] = Some (samples ?empty cs, cs)"
    and ok: "valid_calls cfg 0 missile cs"
    by blast
  have times: "map fst cs = map (\<lambda>i. real i * Config_dt cfg) [0..<length cs]"
    using valid_calls_times [OF ok] by simp
  have each: "\<forall>i<length cs.
        fst (cs ! i) < Config_max_time cfg \<and>
        snd (cs ! i) = update cfg (Config_dt cfg) (Config_target_pos cfg)
                            (if i = 0 then missile else snd (snd (cs ! (i - 1))))"
    using valid_calls_before_timeout [OF ok] valid_calls_chain [OF ok] by simp
  have flying: "\<forall>i. Suc i < length cs \<longrightarrow> fst (snd (cs ! i))"
    using valid_calls_flying [OF ok] by blast
  have stop: "(cs \<noteq> [] \<and> \<not> fst (snd (last cs))) \<or>
      Config_max_time cfg \<le> real (length cs) * Config_dt cfg"
    using valid_calls_stop [OF ok] by auto
  have hist: "samples ?empty cs
      = \<lparr>hist_x = map (\<lambda>c. c0 (pos (snd (snd c)))) (filter (\<lambda>c. fst (snd c)) cs),
         hist_y = map (\<lambda>c. c1 (pos (snd (snd c)))) (filter (\<lambda>c. fst (snd c)) cs),
         hist_mach = map (\<lambda>c. norm3 (vel (snd (snd c))) / 340) (filter (\<lambda>c. fst (snd c)) cs)\<rparr>"
    by (simp add: samples_def fold_record_data)
  from run times each flying stop show ?thesis
    by (intro exI [of _ "samples ?empty cs"] exI [of _ cs]) (simp add: hist)
qed

theorem simulation_loop_witness:
  "0 < Config_dt Config \<and>
   (\<exists>hist calls.
     simulate Config (Inl LoadError) = Some (hist, calls) \<and>
     map fst calls = map (\<lambda>i. real i * Config_dt Config) [0..<length calls] \<and>
     (\<forall>i. Suc i < length calls \<longrightarrow> fst (snd (calls ! i))) \<and>
     hist_x hist = map (\<lambda>c. c0 (pos (snd (snd c)))) (filter (\<lambda>c. fst (snd c)) calls))"
  using Config_dt_pos simulation_loop [OF Config_dt_pos, of "Projectile_init (Inl LoadError)"]
  unfolding simulate_def by blast

subsection \<open>Determinism\<close>

lemma integrate_aero: "aero (integrate cfg dt self f) = aero self"
  by (cases f) (simp add: integrate_def Let_def)

lemma integrate_vel:
  "vel (integrate cfg dt self (fx, fy))
     = (vel self)\<lparr>c0 := c0 (vel self) + fx / Config_mass cfg * dt,
                  c1 := c1 (vel self) + (fy / Config_mass cfg - Config_g cfg) * dt\<rparr>"
  by (simp add: integrate_def Let_def)

lemma update_same:
  assumes "same_config cfg cfg'" and "same_flight m m'"
  shows "fst (update cfg' (Config_dt cfg') (Config_target_pos cfg') m')
           = fst (update cfg (Config_dt cfg) (Config_target_pos cfg) m) \<and>
         same_flight (snd (update cfg (Config_dt cfg) (Config_target_pos cfg) m))
           (snd (update cfg' (Config_dt cfg') (Config_target_pos cfg') m'))"
proof (cases "c1 (pos m) < 0")
  case True
  with assms(2) show ?thesis
    by (simp add: update_def Let_def same_flight_def)
next
  case False
  with assms(2) have alt': "\<not> c1 (pos m') < 0"
    by (simp add: same_flight_def)
  from assms have los: "los_angle (Config_target_pos cfg') m' = los_angle (Config_target_pos cfg) m"
    by (simp add: los_angle_def sub3_def Let_def same_config_def same_flight_def)
  from assms(2) have ang: "vel_angle m' = vel_angle m" "gamma m' = gamma m"
    by (simp_all add: vel_angle_def gamma_def same_flight_def)
  from los ang have al: "alpha_cmd (Config_target_pos cfg') m' = alpha_cmd (Config_target_pos cfg) m"
    by (simp add: alpha_cmd_def Let_def)
  from assms have F: "body_forces cfg' m' rho speed mach a = body_forces cfg m rho speed mach a"
    for rho speed mach a
    by (simp add: body_forces_def Let_def same_config_def same_flight_def)
  from ang have f: "inertial_forces m' G = inertial_forces m G" for G
    by (cases G) (simp add: inertial_forces_def Let_def)
  from assms(2) have start: "c1 (pos m') = c1 (pos m)" "vel m' = vel m"
    by (simp_all add: same_flight_def)
  obtain fx fy where force: "inertial_forces m
      (body_forces cfg m (1.225 * exp (- c1 (pos m) / 8500)) (norm3 (vel m))
         (norm3 (vel m) / 340) (alpha_cmd (Config_target_pos cfg) m)) = (fx, fy)"
    by (cases "inertial_forces m
      (body_forces cfg m (1.225 * exp (- c1 (pos m) / 8500)) (norm3 (vel m))
         (norm3 (vel m) / 340) (alpha_cmd (Config_target_pos cfg) m))")
  have u: "update cfg (Config_dt cfg) (Config_target_pos cfg) m
      = (True, integrate cfg (Config_dt cfg) m (fx, fy))"
    unfolding update_flying [OF False] force ..
  have u': "update cfg' (Config_dt cfg') (Config_target_pos cfg') m'
      = (True, integrate cfg' (Config_dt cfg') m' (fx, fy))"
    unfolding update_flying [OF alt'] al F f start force ..
  from assms have "same_flight (integrate cfg (Config_dt cfg) m (fx, fy))
      (integrate cfg' (Config_dt cfg') m' (fx, fy))"
    by (simp add: same_flight_def same_config_def integrate_aero integrate_vel
        integrate_pos_c0 integrate_pos_c1)
  with u u' show ?thesis
    by simp
qed

lemma record_data_same: "same_flight m m' \<Longrightarrow> record_data hist m' = record_data hist m"
  by (simp add: record_data_def same_flight_def)

lemma run_loop_same:
  assumes "0 < Config_dt cfg" and "same_config cfg cfg'"
    and "Config_max_time cfg - t \<le> real n * Config_dt cfg"
    and "same_flight m m'"
  shows "\<exists>hist' calls calls'.
           run_loop cfg t m hist calls0 = Some (hist', calls) \<and>
           run_loop cfg' t m' hist calls0' = Some (hist', calls')"
  using assms(3,4)
proof (induction n arbitrary: t m m' hist calls0 calls0')
  case 0
  with assms(2) have "\<not> t < Config_max_time cfg" "\<not> t < Config_max_time cfg'"
    by (simp_all add: same_config_def)
  then show ?case
    by (simp add: run_loop_timeout)
next
  case (Suc n)
  let ?u = "update cfg (Config_dt cfg) (Config_target_pos cfg) m"
  let ?u' = "update cfg' (Config_dt cfg') (Config_target_pos cfg') m'"
  from assms(2) have T: "Config_max_time cfg' = Config_max_time cfg"
    and d: "Config_dt cfg' = Config_dt cfg"
    by (simp_all add: same_config_def)
  from update_same [OF assms(2) Suc.prems(2)]
  have flag: "fst ?u' = fst ?u" and next_same: "same_flight (snd ?u) (snd ?u')"
    by simp_all
  show ?case
  proof (cases "t < Config_max_time cfg")
    case False
    with T show ?thesis
      by (simp add: run_loop_timeout)
  next
    case True
    with T have True': "t < Config_max_time cfg'"
      by simp
    show ?thesis
    proof (cases "fst ?u")
      case False
      with flag have "\<not> fst ?u'"
        by simp
      with False True True' show ?thesis
        by (simp add: run_loop_impact)
    next
      case flying: True
      with flag have flying': "fst ?u'"
        by simp
      from Suc.prems(1) have "Config_max_time cfg - (t + Config_dt cfg) \<le> real n * Config_dt cfg"
        by (simp add: algebra_simps)
      from Suc.IH [OF this next_same, of "record_data hist (snd ?u)" "calls0 @ [(t, ?u)]"
          "calls0' @ [(t, ?u')]"]
      show ?thesis
        unfolding run_loop_step [OF True flying] run_loop_step [OF True' flying']
          record_data_same [OF next_same]
        unfolding d .
    qed
  qed
qed

text \<open>
  C8: the trajectory is determined by the time step, the maximum time, gravity, mass,
  reference area and target of the configuration, by the position and velocity of the
  initial object and by its two coefficient lookups. With a positive time step, two runs
  that agree on these produce a trajectory, and it is the same one; nothing else (the
  diameter behind the area, the orientation, the third position component, the way the
  coefficient curves are represented) reaches it.
\<close>

theorem simulation_deterministic:
  assumes "0 < Config_dt cfg"
    and "Config_dt cfg' = Config_dt cfg" and "Config_max_time cfg' = Config_max_time cfg"
    and "Config_g cfg' = Config_g cfg" and "Config_mass cfg' = Config_mass cfg"
    and "Config_area cfg' = Config_area cfg"
    and "c0 (Config_target_pos cfg') = c0 (Config_target_pos cfg)"
    and "c1 (Config_target_pos cfg') = c1 (Config_target_pos cfg)"
    and "c0 (pos missile') = c0 (pos missile)" and "c1 (pos missile') = c1 (pos missile)"
    and "vel missile' = vel missile"
    and "\<forall>mach. get_cd (aero missile') mach = get_cd (aero missile) mach"
    and "\<forall>mach. get_cl_alpha (aero missile') mach = get_cl_alpha (aero missile) mach"
  shows "\<exists>trajectory.
           map_option fst (run_loop cfg 0 missile \<lparr>hist_x = [], hist_y = [], hist_mach = []\<rparr> [])
             = Some trajectory \<and>
           map_option fst (run_loop cfg' 0 missile' \<lparr>hist_x = [], hist_y = [], hist_mach = []\<rparr> [])
             = Some trajectory"
proof -
  from assms have cfg: "same_config cfg cfg'"
    by (simp add: same_config_def)
  from assms have start: "same_flight missile missile'"
    by (simp add: same_flight_def)
  from enough_steps [OF assms(1)] obtain n
    where "Config_max_time cfg - 0 \<le> real n * Config_dt cfg"
    by blast
  from run_loop_same [OF assms(1) cfg this start,
      of "\<lparr>hist_x = [], hist_y = [], hist_mach = []\<rparr>" "[]" "[]"]
  show ?thesis
    by auto
qed

theorem simulation_deterministic_witness:
  "\<exists>trajectory.
     run_simulation (Inl LoadError) = Some trajectory \<and>
     map_option fst
       (run_loop (Config\<lparr>Config_diameter := - (155 / 1000),
                         Config_target_pos := \<lparr>c0 = 15000, c1 = 500, c2 = 7\<rparr>\<rparr>) 0
          ((Projectile_init (Inl LoadError))
             \<lparr>pos := \<lparr>c0 = 0, c1 = 2000, c2 = 3\<rparr>, quat := (1, 0, 0, 0)\<rparr>)
          \<lparr>hist_x = [], hist_y = [], hist_mach = []\<rparr> [])
       = Some trajectory"
  unfolding run_simulation_def simulate_def
  by (rule simulation_deterministic)
     (simp_all add: Config_def Config_area_def Projectile_init_def)

end
